theory Spec2Isabelle
  imports Complex_Main "HOL-Library.Log_Nat" "HOL-Library.AList"
begin

section \<open>JavaScript numbers\<close>

text \<open>
  The cart of \<^verbatim>\<open>CartWishlistContext.js\<close> computes with JavaScript numbers: it coerces
  stored quantities and prices with \<^verbatim>\<open>Number(...)\<close>, adds, multiplies and compares them.
  A JavaScript number is an IEEE 754 binary64 value. It is modelled as \<open>NaN\<close>, one of the
  two infinities, or a finite value given by the rational it denotes. The two zeros are
  identified: the source never divides and never inspects the sign of a zero.
  Every arithmetic result is rounded to the nearest binary64 value, ties to even
  (\<open>round_double\<close>): the quantum of a value in \<open>[2^e, 2^(e+1))\<close> is \<open>2^(e-52)\<close>, with
  \<open>e\<close> at least \<open>-1022\<close> (subnormal values share the quantum \<open>2^-1074\<close>), and a rounded
  magnitude of \<open>2^1024\<close> or more is an infinity.
\<close>

datatype jsnum = NaN | PInf | NInf | Fin rat

definition ilog2 :: "rat \<Rightarrow> int" where
  "ilog2 a = (let (p, q) = quotient_of a;
                  k = bitlen p - bitlen q
              in if 2 powi k \<le> a then k else k - 1)"

definition round_ties_even :: "rat \<Rightarrow> int" where
  "round_ties_even x = (let f = \<lfloor>x\<rfloor>; d = x - of_int f
     in if d < 1/2 then f else if 1/2 < d then f + 1 else if even f then f else f + 1)"

definition round_double :: "rat \<Rightarrow> jsnum" where
  "round_double r = (if r = 0 then Fin 0 else
     let a = \<bar>r\<bar>;
         e = max (ilog2 a) (- 1022);
         u = 2 powi (e - 52);
         v = of_int (round_ties_even (a / u)) * u
     in if 2 ^ 1024 \<le> v then (if 0 < r then PInf else NInf)
        else Fin (if 0 < r then v else - v))"

text \<open>The operators \<^verbatim>\<open>+\<close>, \<^verbatim>\<open>*\<close> and \<^verbatim>\<open>>\<close> on two numbers.\<close>

fun js_add :: "jsnum \<Rightarrow> jsnum \<Rightarrow> jsnum" where
  "js_add NaN _ = NaN"
| "js_add _ NaN = NaN"
| "js_add PInf NInf = NaN"
| "js_add NInf PInf = NaN"
| "js_add PInf _ = PInf"
| "js_add _ PInf = PInf"
| "js_add NInf _ = NInf"
| "js_add _ NInf = NInf"
| "js_add (Fin a) (Fin b) = round_double (a + b)"

fun js_mul :: "jsnum \<Rightarrow> jsnum \<Rightarrow> jsnum" where
  "js_mul (Fin a) (Fin b) = round_double (a * b)"
| "js_mul NaN _ = NaN"
| "js_mul _ NaN = NaN"
| "js_mul (Fin a) PInf = (if a = 0 then NaN else if 0 < a then PInf else NInf)"
| "js_mul (Fin a) NInf = (if a = 0 then NaN else if 0 < a then NInf else PInf)"
| "js_mul PInf (Fin b) = (if b = 0 then NaN else if 0 < b then PInf else NInf)"
| "js_mul NInf (Fin b) = (if b = 0 then NaN else if 0 < b then NInf else PInf)"
| "js_mul PInf PInf = PInf"
| "js_mul NInf NInf = PInf"
| "js_mul PInf NInf = NInf"
| "js_mul NInf PInf = NInf"

fun js_gt :: "jsnum \<Rightarrow> jsnum \<Rightarrow> bool" where
  "js_gt NaN _ = False"
| "js_gt _ NaN = False"
| "js_gt NInf _ = False"
| "js_gt PInf PInf = False"
| "js_gt PInf _ = True"
| "js_gt (Fin a) PInf = False"
| "js_gt (Fin a) NInf = True"
| "js_gt (Fin a) (Fin b) = (b < a)"

text \<open>\<^verbatim>\<open>n || d\<close> on a number \<open>n\<close>: the falsy numbers are \<open>NaN\<close> and zero.\<close>

definition number_or :: "jsnum \<Rightarrow> jsnum \<Rightarrow> jsnum" where
  "number_or n d = (if n = NaN \<or> n = Fin 0 then d else n)"

section \<open>JavaScript values\<close>

text \<open>
  Cart and wishlist entries are plain objects whose fields hold JSON-like data: they come
  from the course catalogue or from \<^verbatim>\<open>JSON.parse\<close>. An array or object value carries the
  reference that \<^verbatim>\<open>===\<close> compares; the source never mutates a nested value, so a
  reference always denotes the same contents. A string is the list of its code units
  (code units below 256).
\<close>

type_synonym ref = nat

datatype jsval =
    JUndefined
  | JNull
  | JBool bool
  | JNum jsnum
  | JStr string
  | JArr ref "jsval list"
  | JObj ref "(string \<times> jsval) list"

text \<open>
  \<^verbatim>\<open>Number(s)\<close> on a string: surrounding white space is dropped; the empty string is 0;
  otherwise the text must be a binary, octal or hexadecimal integer literal, an optionally
  signed \<^verbatim>\<open>Infinity\<close>, or an optionally signed decimal literal with optional fraction and
  exponent; anything else is \<open>NaN\<close>.
\<close>

definition is_ws :: "char \<Rightarrow> bool" where
  "is_ws c = (c \<in> set [CHR 0x09, CHR 0x0A, CHR 0x0B, CHR 0x0C, CHR 0x0D, CHR 0x20, CHR 0xA0])"

definition trim :: "string \<Rightarrow> string" where
  "trim s = rev (dropWhile is_ws (rev (dropWhile is_ws s)))"

definition digit_val :: "char \<Rightarrow> nat option" where
  "digit_val c = map_of
     [(CHR ''0'', 0), (CHR ''1'', 1), (CHR ''2'', 2), (CHR ''3'', 3), (CHR ''4'', 4),
      (CHR ''5'', 5), (CHR ''6'', 6), (CHR ''7'', 7), (CHR ''8'', 8), (CHR ''9'', 9),
      (CHR ''a'', 10), (CHR ''b'', 11), (CHR ''c'', 12), (CHR ''d'', 13), (CHR ''e'', 14),
      (CHR ''f'', 15), (CHR ''A'', 10), (CHR ''B'', 11), (CHR ''C'', 12), (CHR ''D'', 13),
      (CHR ''E'', 14), (CHR ''F'', 15)] c"

text \<open>The value of a possibly empty run of digits in a base; \<open>None\<close> on a foreign character.\<close>

fun digits_val :: "nat \<Rightarrow> int \<Rightarrow> string \<Rightarrow> int option" where
  "digits_val base acc [] = Some acc"
| "digits_val base acc (c # cs) =
     (case digit_val c of
        None \<Rightarrow> None
      | Some d \<Rightarrow> if d < base then digits_val base (acc * int base + int d) cs else None)"

definition radix_literal :: "nat \<Rightarrow> string \<Rightarrow> jsnum" where
  "radix_literal base ds =
     (if ds = [] then NaN
      else case digits_val base 0 ds of None \<Rightarrow> NaN | Some n \<Rightarrow> round_double (of_int n))"

definition exponent_val :: "string \<Rightarrow> int option" where
  "exponent_val ex =
     (let (neg, ds) = (case ex of
                         c # cs \<Rightarrow> if c = CHR ''-'' then (True, cs)
                                   else if c = CHR ''+'' then (False, cs) else (False, ex)
                       | [] \<Rightarrow> (False, ex))
      in if ds = [] then None
         else case digits_val 10 0 ds of None \<Rightarrow> None | Some n \<Rightarrow> Some (if neg then - n else n))"

definition decimal_literal :: "string \<Rightarrow> rat option" where
  "decimal_literal t =
     (let mant = takeWhile (\<lambda>c. c \<noteq> CHR ''e'' \<and> c \<noteq> CHR ''E'') t;
          rest = dropWhile (\<lambda>c. c \<noteq> CHR ''e'' \<and> c \<noteq> CHR ''E'') t;
          ip = takeWhile (\<lambda>c. c \<noteq> CHR ''.'') mant;
          fp = drop 1 (dropWhile (\<lambda>c. c \<noteq> CHR ''.'') mant)
      in if ip = [] \<and> fp = [] then None
         else case (digits_val 10 0 ip, digits_val 10 0 fp,
                    if rest = [] then Some 0 else exponent_val (tl rest)) of
                (Some i, Some f, Some x) \<Rightarrow>
                   Some ((of_int i + of_int f / 10 ^ length fp) * 10 powi x)
              | _ \<Rightarrow> None)"

definition StringToNumber :: "string \<Rightarrow> jsnum" where
  "StringToNumber s =
     (let t = trim s in
      if t = [] then Fin 0
      else if take 2 t = ''0x'' \<or> take 2 t = ''0X'' then radix_literal 16 (drop 2 t)
      else if take 2 t = ''0o'' \<or> take 2 t = ''0O'' then radix_literal 8 (drop 2 t)
      else if take 2 t = ''0b'' \<or> take 2 t = ''0B'' then radix_literal 2 (drop 2 t)
      else
        let neg = (hd t = CHR ''-'');
            u = (if hd t = CHR ''-'' \<or> hd t = CHR ''+'' then tl t else t)
        in if u = ''Infinity'' then (if neg then NInf else PInf)
           else case decimal_literal u of
                  None \<Rightarrow> NaN
                | Some r \<Rightarrow> round_double (if neg then - r else r))"

text \<open>
  \<^verbatim>\<open>Number(v)\<close>. An array is converted through its string form: the empty array gives
  the empty string, a one-element array the string of its element (empty for
  \<^verbatim>\<open>null\<close> and \<^verbatim>\<open>undefined\<close>; a number prints to a string that reads back as itself),
  and a longer array a string with commas, which is not numeric. A plain object prints
  as \<^verbatim>\<open>[object Object]\<close>.
\<close>

fun ToNumber :: "jsval \<Rightarrow> jsnum" where
  "ToNumber JUndefined = NaN"
| "ToNumber JNull = Fin 0"
| "ToNumber (JBool b) = Fin (if b then 1 else 0)"
| "ToNumber (JNum n) = n"
| "ToNumber (JStr s) = StringToNumber s"
| "ToNumber (JArr r []) = Fin 0"
| "ToNumber (JArr r [JUndefined]) = Fin 0"
| "ToNumber (JArr r [JNull]) = Fin 0"
| "ToNumber (JArr r [JBool b]) = NaN"
| "ToNumber (JArr r [JNum n]) = n"
| "ToNumber (JArr r [JStr s]) = StringToNumber s"
| "ToNumber (JArr r [JArr r' ys]) = ToNumber (JArr r' ys)"
| "ToNumber (JArr r [JObj r' kvs]) = NaN"
| "ToNumber (JArr r (x # y # zs)) = NaN"
| "ToNumber (JObj r kvs) = NaN"

text \<open>Truthiness, as tested by \<^verbatim>\<open>!v\<close> and \<^verbatim>\<open>v || d\<close>.\<close>

fun truthy :: "jsval \<Rightarrow> bool" where
  "truthy JUndefined = False"
| "truthy JNull = False"
| "truthy (JBool b) = b"
| "truthy (JNum n) = (n \<noteq> NaN \<and> n \<noteq> Fin 0)"
| "truthy (JStr s) = (s \<noteq> [])"
| "truthy (JArr r xs) = True"
| "truthy (JObj r kvs) = True"

definition js_or :: "jsval \<Rightarrow> jsval \<Rightarrow> jsval" where
  "js_or v d = (if truthy v then v else d)"

text \<open>Strict equality \<^verbatim>\<open>a === b\<close>: \<open>NaN\<close> equals nothing, references compare by identity.\<close>

fun strict_eq :: "jsval \<Rightarrow> jsval \<Rightarrow> bool" where
  "strict_eq JUndefined JUndefined = True"
| "strict_eq JNull JNull = True"
| "strict_eq (JBool a) (JBool b) = (a = b)"
| "strict_eq (JNum a) (JNum b) = (a \<noteq> NaN \<and> a = b)"
| "strict_eq (JStr a) (JStr b) = (a = b)"
| "strict_eq (JArr r xs) (JArr r' ys) = (r = r')"
| "strict_eq (JObj r kvs) (JObj r' kvs') = (r = r')"
| "strict_eq _ _ = False"

text \<open>
  An entry of the cart or of the wishlist is an object (the source: \<^verbatim>\<open>items: array of cart
  items { id, title, price, quantity, ... }\<close>), given by its own properties in order; the
  operations never compare entries themselves, only their ids, so an entry needs no
  reference of its own. Reading a property that the object lacks yields \<^verbatim>\<open>undefined\<close>.
  The object literal \<^verbatim>\<open>{ ...i, k: v }\<close> copies the properties of \<open>i\<close> and then sets \<open>k\<close>:
  in place when \<open>i\<close> has the property, at the end otherwise.
\<close>

type_synonym item = "(string \<times> jsval) list"

definition field :: "item \<Rightarrow> string \<Rightarrow> jsval" where
  "field i k = (case map_of i k of None \<Rightarrow> JUndefined | Some v \<Rightarrow> v)"

definition spread_with :: "item \<Rightarrow> string \<Rightarrow> jsval \<Rightarrow> item" where
  "spread_with i k v = AList.update k v i"

section \<open>localStorage helpers\<close>

text \<open>
  A stored text is represented by what \<^verbatim>\<open>JSON.parse\<close> makes of it: the empty text and
  text that is not JSON raise a \<^verbatim>\<open>SyntaxError\<close>, any other text encodes a value.
  The platform says whether \<^verbatim>\<open>window\<close> is defined and what \<^verbatim>\<open>localStorage\<close> holds;
  where storage is not available (\<open>None\<close>) every access raises.
\<close>

datatype error = TypeError | SyntaxError | StorageError | Error string

datatype stored_text = EmptyText | Malformed | Encodes jsval

record platform =
  window_defined :: bool
  localStorage :: "(string \<times> stored_text) list option"

definition getItem :: "platform \<Rightarrow> string \<Rightarrow> error + stored_text option" where
  "getItem pf key =
     (case localStorage pf of None \<Rightarrow> Inl StorageError | Some store \<Rightarrow> Inr (map_of store key))"

fun JSON_parse :: "stored_text \<Rightarrow> error + jsval" where
  "JSON_parse EmptyText = Inl SyntaxError"
| "JSON_parse Malformed = Inl SyntaxError"
| "JSON_parse (Encodes v) = Inr v"

text \<open>
  \<^verbatim>\<open>safeGet\<close>: every exception raised inside the \<^verbatim>\<open>try\<close> block ends in the
  \<^verbatim>\<open>catch\<close> branch, which returns \<^verbatim>\<open>null\<close>. \<^verbatim>\<open>!raw\<close> holds for \<^verbatim>\<open>null\<close> and for
  the empty text.
\<close>

definition safeGet :: "platform \<Rightarrow> string \<Rightarrow> jsval" where
  "safeGet pf key =
     (if \<not> window_defined pf then JNull
      else case getItem pf key of
             Inl err \<Rightarrow> JNull
           | Inr None \<Rightarrow> JNull
           | Inr (Some raw) \<Rightarrow>
               if raw = EmptyText then JNull
               else case JSON_parse raw of
                      Inl err \<Rightarrow> JNull
                    | Inr v \<Rightarrow> v)"

text \<open>
  Reading the property \<^verbatim>\<open>items\<close> of a value: a \<^verbatim>\<open>TypeError\<close> on \<^verbatim>\<open>null\<close> and
  \<^verbatim>\<open>undefined\<close>, the property of an object, and \<^verbatim>\<open>undefined\<close> on a primitive or an
  array, which have no property of that name.
\<close>

fun get_items :: "jsval \<Rightarrow> error + jsval" where
  "get_items JUndefined = Inl TypeError"
| "get_items JNull = Inl TypeError"
| "get_items (JObj r kvs) = Inr (field kvs ''items'')"
| "get_items _ = Inr JUndefined"

fun isArray :: "jsval \<Rightarrow> bool" where
  "isArray (JArr r xs) = True"
| "isArray _ = False"

fun elems :: "jsval \<Rightarrow> jsval list" where
  "elems (JArr r xs) = xs"
| "elems _ = []"

text \<open>
  The initial state of both providers, the function passed to \<^verbatim>\<open>useState\<close>. It is not
  inside a \<^verbatim>\<open>try\<close> block: an exception raised by \<^verbatim>\<open>saved.items\<close> would leave it.
\<close>

definition loadItems :: "platform \<Rightarrow> string \<Rightarrow> error + jsval list" where
  "loadItems pf key =
     (let saved = safeGet pf key in
      if \<not> truthy saved then Inr []
      else case get_items saved of
             Inl err \<Rightarrow> Inl err
           | Inr its \<Rightarrow>
               if isArray its then Inr (elems its)
               else if isArray saved then Inr (elems saved)
               else Inr [])"

section \<open>Cart provider\<close>

text \<open>
  A notification is a call of \<^verbatim>\<open>toast.success\<close> or \<^verbatim>\<open>toast.error\<close>. Its message is
  kept as the pieces of the template literal: fixed text and interpolated values.
  Each operation returns the next \<^verbatim>\<open>items\<close> array, which is what the updater passed to
  \<^verbatim>\<open>setItems\<close> makes of the array it receives, and the notifications it fired.

  \<^verbatim>\<open>addToCart\<close> and \<^verbatim>\<open>addToWishlist\<close> set the flag \<^verbatim>\<open>added\<close> inside the updater and test it
  when \<^verbatim>\<open>setItems\<close> has returned. React runs the updater inside that call only when the
  provider has no update pending (\<open>AtCall\<close>); otherwise it queues the updater and runs it at
  the next render (\<open>Queued\<close>), after the test, so that the test still finds \<^verbatim>\<open>false\<close>. This
  is the case for the second and later calls made by one event handler, as in the loop of
  the page that adds the whole wishlist to the cart.
\<close>

datatype updater_run = AtCall | Queued

datatype piece = Lit string | Interp jsval

datatype toast = ToastSuccess "piece list" | ToastError "piece list"

fun findIndex :: "('a \<Rightarrow> bool) \<Rightarrow> 'a list \<Rightarrow> int" where
  "findIndex P [] = - 1"
| "findIndex P (x # xs) =
     (if P x then 0 else (let r = findIndex P xs in if r = - 1 then - 1 else r + 1))"

definition addToCart :: "updater_run \<Rightarrow> item \<Rightarrow> item list \<Rightarrow> item list \<times> toast list" where
  "addToCart run product prev =
     (let idx = findIndex (\<lambda>i. strict_eq (field i ''id'') (field product ''id'')) prev;
          nxt = (if idx > - 1 then
                   (let cur = prev ! nat idx
                    in prev[nat idx := spread_with cur ''quantity''
                         (JNum (js_add (number_or (ToNumber (field cur ''quantity'')) (Fin 0)) (Fin 1)))])
                 else prev @ [spread_with product ''quantity'' (JNum (Fin 1))]);
          added = (run = AtCall \<and> \<not> idx > - 1)
      in (nxt,
          if added
          then [ToastSuccess [Interp (js_or (field product ''title'') (JStr ''Item'')),
                              Lit '' added to cart'']]
          else []))"

definition removeFromCart :: "jsval \<Rightarrow> item list \<Rightarrow> item list \<times> toast list" where
  "removeFromCart ident prev =
     (filter (\<lambda>i. \<not> strict_eq (field i ''id'') ident) prev,
      [ToastError [Lit ''Removed from cart'']])"

definition updateQuantity :: "jsval \<Rightarrow> jsval \<Rightarrow> item list \<Rightarrow> item list \<times> toast list" where
  "updateQuantity ident quantity prev =
     (filter (\<lambda>i. js_gt (ToNumber (field i ''quantity'')) (Fin 0))
        (map (\<lambda>i. if strict_eq (field i ''id'') ident
                  then spread_with i ''quantity'' (JNum (ToNumber quantity)) else i) prev),
      [])"

definition clearCart :: "item list \<Rightarrow> item list \<times> toast list" where
  "clearCart prev = ([], [ToastSuccess [Lit ''Cart cleared!'']])"

definition getTotalItems :: "item list \<Rightarrow> jsnum" where
  "getTotalItems items =
     foldl (\<lambda>s i. js_add s (number_or (ToNumber (field i ''quantity'')) (Fin 0))) (Fin 0) items"

definition getTotalPrice :: "item list \<Rightarrow> jsnum" where
  "getTotalPrice items =
     foldl (\<lambda>s i. js_add s (js_mul (number_or (ToNumber (field i ''price'')) (Fin 0))
                                    (number_or (ToNumber (field i ''quantity'')) (Fin 0))))
       (Fin 0) items"

definition isInCart :: "jsval \<Rightarrow> item list \<Rightarrow> bool" where
  "isInCart ident items = list_ex (\<lambda>i. strict_eq (field i ''id'') ident) items"

text \<open>
  The invariant of the cart state: no two entries have ids that \<^verbatim>\<open>===\<close> identifies, and
  the quantity of every entry is a number greater than 0.
\<close>

fun unique_vals :: "jsval list \<Rightarrow> bool" where
  "unique_vals [] = True"
| "unique_vals (v # vs) = (\<not> list_ex (\<lambda>w. strict_eq v w) vs \<and> unique_vals vs)"

definition unique_ids :: "item list \<Rightarrow> bool" where
  "unique_ids items = unique_vals (map (\<lambda>i. field i ''id'') items)"

definition positive_quantity :: "item \<Rightarrow> bool" where
  "positive_quantity i = (case field i ''quantity'' of JNum n \<Rightarrow> js_gt n (Fin 0) | _ \<Rightarrow> False)"

definition cart_inv :: "item list \<Rightarrow> bool" where
  "cart_inv items = (unique_ids items \<and> list_all positive_quantity items)"

section \<open>Wishlist provider\<close>

definition addToWishlist :: "updater_run \<Rightarrow> item \<Rightarrow> item list \<Rightarrow> item list \<times> toast list" where
  "addToWishlist run product prev =
     (let present = list_ex (\<lambda>i. strict_eq (field i ''id'') (field product ''id'')) prev;
          nxt = (if present then prev else prev @ [product]);
          added = (run = AtCall \<and> \<not> present)
      in (nxt,
          if added
          then [ToastSuccess [Interp (js_or (field product ''title'') (JStr ''Item'')),
                              Lit '' added to wishlist'']]
          else []))"

definition removeFromWishlist :: "jsval \<Rightarrow> item list \<Rightarrow> item list \<times> toast list" where
  "removeFromWishlist ident prev =
     (filter (\<lambda>i. \<not> strict_eq (field i ''id'') ident) prev,
      [ToastError [Lit ''Removed from wishlist'']])"

definition wishlist_getTotalItems :: "item list \<Rightarrow> nat" where
  "wishlist_getTotalItems items = length items"

definition isInWishlist :: "jsval \<Rightarrow> item list \<Rightarrow> bool" where
  "isInWishlist ident items = list_ex (\<lambda>i. strict_eq (field i ''id'') ident) items"

section \<open>Context values and custom hooks for consumers\<close>

text \<open>
  The value a provider passes down: the current \<^verbatim>\<open>items\<close> and the operations, which are
  closed over the current state (the two adding operations still take how React runs the
  updater). \<^verbatim>\<open>clearCart\<close> and the two totals take no argument and
  are given by their result.
\<close>

record cart_context =
  ctx_items :: "item list"
  ctx_addToCart :: "updater_run \<Rightarrow> item \<Rightarrow> item list \<times> toast list"
  ctx_removeFromCart :: "jsval \<Rightarrow> item list \<times> toast list"
  ctx_updateQuantity :: "jsval \<Rightarrow> jsval \<Rightarrow> item list \<times> toast list"
  ctx_clearCart :: "item list \<times> toast list"
  ctx_getTotalItems :: jsnum
  ctx_getTotalPrice :: jsnum
  ctx_isInCart :: "jsval \<Rightarrow> bool"

record wishlist_context =
  wl_items :: "item list"
  wl_addToWishlist :: "updater_run \<Rightarrow> item \<Rightarrow> item list \<times> toast list"
  wl_removeFromWishlist :: "jsval \<Rightarrow> item list \<times> toast list"
  wl_getTotalItems :: nat
  wl_isInWishlist :: "jsval \<Rightarrow> bool"

definition cart_value :: "item list \<Rightarrow> cart_context" where
  "cart_value items =
     \<lparr>ctx_items = items,
      ctx_addToCart = (\<lambda>run product. addToCart run product items),
      ctx_removeFromCart = (\<lambda>ident. removeFromCart ident items),
      ctx_updateQuantity = (\<lambda>ident quantity. updateQuantity ident quantity items),
      ctx_clearCart = clearCart items,
      ctx_getTotalItems = getTotalItems items,
      ctx_getTotalPrice = getTotalPrice items,
      ctx_isInCart = (\<lambda>ident. isInCart ident items)\<rparr>"

definition wishlist_value :: "item list \<Rightarrow> wishlist_context" where
  "wishlist_value items =
     \<lparr>wl_items = items,
      wl_addToWishlist = (\<lambda>run product. addToWishlist run product items),
      wl_removeFromWishlist = (\<lambda>ident. removeFromWishlist ident items),
      wl_getTotalItems = wishlist_getTotalItems items,
      wl_isInWishlist = (\<lambda>ident. isInWishlist ident items)\<rparr>"

text \<open>
  The providers that enclose a component, innermost first, each with its current state.
  Both contexts are created with the default \<^verbatim>\<open>null\<close>: \<^verbatim>\<open>useContext\<close> yields the value
  of the nearest enclosing provider of the context, or \<^verbatim>\<open>null\<close> (\<open>None\<close>) when there is
  none. A context value is an object, so \<^verbatim>\<open>!ctx\<close> holds exactly for \<^verbatim>\<open>null\<close>.
\<close>

datatype provider = CartProvider "item list" | WishlistProvider "item list"

fun useContext_CartContext :: "provider list \<Rightarrow> cart_context option" where
  "useContext_CartContext [] = None"
| "useContext_CartContext (CartProvider items # outer) = Some (cart_value items)"
| "useContext_CartContext (WishlistProvider items # outer) = useContext_CartContext outer"

fun useContext_WishlistContext :: "provider list \<Rightarrow> wishlist_context option" where
  "useContext_WishlistContext [] = None"
| "useContext_WishlistContext (WishlistProvider items # outer) = Some (wishlist_value items)"
| "useContext_WishlistContext (CartProvider items # outer) = useContext_WishlistContext outer"

definition useCart :: "provider list \<Rightarrow> error + cart_context" where
  "useCart scope =
     (case useContext_CartContext scope of
        None \<Rightarrow> Inl (Error ''useCart must be used within a CartProvider'')
      | Some ctx \<Rightarrow> Inr ctx)"

definition useWishlist :: "provider list \<Rightarrow> error + wishlist_context" where
  "useWishlist scope =
     (case useContext_WishlistContext scope of
        None \<Rightarrow> Inl (Error ''useWishlist must be used within a WishlistProvider'')
      | Some ctx \<Rightarrow> Inr ctx)"

text \<open>\<^verbatim>\<open>CombinedProvider\<close> wraps its children in a cart provider and, inside it, a wishlist provider.\<close>

definition CombinedProvider :: "item list \<Rightarrow> item list \<Rightarrow> provider list \<Rightarrow> provider list" where
  "CombinedProvider cart wishlist outer = WishlistProvider wishlist # CartProvider cart # outer"

section \<open>Properties of the number model\<close>

text \<open>
  \<open>ilog2\<close> is the binary exponent of a positive rational, rounding leaves integers up to
  \<open>2^53\<close> unchanged, and a value of at least 1 rounds to a number greater than 0.
\<close>

lemma bitlen_powi:
  assumes "0 < x"
  shows "(2::rat) powi (bitlen x - 1) \<le> of_int x" "of_int x < (2::rat) powi (bitlen x)"
proof -
  from bitlen_bounds[OF assms] have b: "2 ^ nat (bitlen x - 1) \<le> x" "x < 2 ^ nat (bitlen x)"
    by auto
  have ge1: "1 \<le> bitlen x" using assms by (auto simp: bitlen_alt_def)
  have "(2::rat) powi (bitlen x - 1) = 2 ^ nat (bitlen x - 1)"
    using ge1 by (simp add: power_int_def)
  also have "\<dots> = of_int (2 ^ nat (bitlen x - 1))" by simp
  also have "\<dots> \<le> of_int x" using b(1) by (simp only: of_int_le_iff)
  finally show "(2::rat) powi (bitlen x - 1) \<le> of_int x" .
  have "(of_int x :: rat) < of_int (2 ^ nat (bitlen x))" using b(2) by (simp only: of_int_less_iff)
  also have "\<dots> = 2 powi (bitlen x)" using ge1 by (simp add: power_int_def)
  finally show "of_int x < (2::rat) powi (bitlen x)" .
qed

lemma ilog2_bounds:
  assumes "0 < a"
  shows "2 powi (ilog2 a) \<le> a" "a < 2 powi (ilog2 a + 1)"
proof -
  obtain p q where pq: "quotient_of a = (p, q)" by (cases "quotient_of a")
  have q: "0 < q" using pq quotient_of_denom_pos by blast
  have a: "a = of_int p / of_int q" using pq by (rule quotient_of_div)
  have p: "0 < p" using assms q a by (simp add: zero_less_divide_iff)
  define k where "k = bitlen p - bitlen q"
  have lo: "2 powi (k - 1) \<le> a"
  proof -
    have "2 powi (k - 1) = (2::rat) powi (bitlen p - 1) / 2 powi (bitlen q)"
      by (simp add: k_def power_int_diff)
    also have "\<dots> \<le> of_int p / 2 powi (bitlen q)"
      using bitlen_powi(1)[OF p] by (simp add: divide_right_mono)
    also have "\<dots> \<le> of_int p / of_int q"
      using bitlen_powi(2)[OF q] p q by (simp add: frac_le)
    finally show ?thesis by (simp add: a)
  qed
  have hi: "a < 2 powi (k + 1)"
  proof -
    have "a = of_int p / of_int q" by (rule a)
    also have "\<dots> < 2 powi (bitlen p) / of_int q"
      using bitlen_powi(2)[OF p] q by (simp add: divide_strict_right_mono)
    also have "\<dots> \<le> 2 powi (bitlen p) / 2 powi (bitlen q - 1)"
      using bitlen_powi(1)[OF q] q by (simp add: frac_le)
    also have "\<dots> = 2 powi (bitlen p - (bitlen q - 1))"
      by (subst power_int_diff) simp_all
    also have "bitlen p - (bitlen q - 1) = k + 1"
      by (simp add: k_def)
    finally show ?thesis .
  qed
  have e: "ilog2 a = (if 2 powi k \<le> a then k else k - 1)"
    by (simp add: ilog2_def pq k_def Let_def)
  show "2 powi (ilog2 a) \<le> a" using lo by (simp add: e)
  show "a < 2 powi (ilog2 a + 1)" using hi by (auto simp add: e not_le)
qed

lemma pow2_less_imp_less:
  assumes "(2::rat) powi m < 2 powi n"
  shows "m < n"
proof (rule ccontr)
  assume "\<not> m < n"
  then have "n \<le> m" by simp
  then have "(2::rat) powi n \<le> 2 powi m" by (rule power_int_increasing) simp
  with assms show False by simp
qed


lemma round_ties_even_of_int: "round_ties_even (of_int z) = z"
  by (simp add: round_ties_even_def)

lemma round_ties_even_ge_floor: "\<lfloor>x\<rfloor> \<le> round_ties_even x"
  by (simp add: round_ties_even_def Let_def)

lemma round_double_exact:
  assumes "0 < r" "- 1022 \<le> ilog2 r" "r / 2 powi (ilog2 r - 52) = of_int z" "r < 2 ^ 1024"
  shows "round_double r = Fin r"
proof -
  have u: "(2::rat) powi (ilog2 r - 52) \<noteq> 0" by simp
  have "of_int z * 2 powi (ilog2 r - 52) = r"
    using assms(3) u by (metis nonzero_divide_eq_eq)
  then have v: "of_int (round_ties_even (r / 2 powi (ilog2 r - 52))) * 2 powi (ilog2 r - 52) = r"
    by (simp add: assms(3) round_ties_even_of_int)
  have m: "max (ilog2 r) (- 1022) = ilog2 r" using assms(2) by simp
  have a: "\<bar>r\<bar> = r" using assms(1) by simp
  show ?thesis
    unfolding round_double_def Let_def a m v using assms(1,4) by simp
qed

lemma round_double_of_int:
  assumes "0 \<le> n" "n \<le> 2 ^ 53"
  shows "round_double (of_int n) = Fin (of_int n)"
proof (cases "n = 0")
  case True
  then show ?thesis by (simp add: round_double_def)
next
  case False
  with assms have pos: "0 < (of_int n :: rat)" by simp
  have ge1: "(1::rat) \<le> of_int n" using False assms by simp
  note b = ilog2_bounds[OF pos]
  define e where "e = ilog2 (of_int n)"
  have "(2::rat) powi 0 < 2 powi (e + 1)" using b(2) ge1 by (simp add: e_def)
  then have e0: "0 \<le> e" using pow2_less_imp_less by fastforce
  have le: "(of_int n :: rat) \<le> 2 ^ 53" using assms(2) by (metis of_int_le_iff of_int_numeral of_int_power)
  have "(2::rat) powi e < 2 powi 54" using b(1) le by (simp add: e_def)
  then have e53: "e \<le> 53" using pow2_less_imp_less by fastforce
  have "\<exists>z. (of_int n :: rat) / 2 powi (e - 52) = of_int z"
  proof (cases "e \<le> 52")
    case True
    have "(of_int n :: rat) / 2 powi (e - 52) = of_int n * 2 powi (52 - e)"
      by (simp add: power_int_diff field_simps)
    also have "\<dots> = of_int (n * 2 ^ nat (52 - e))" using True by (simp add: power_int_def)
    finally show ?thesis by blast
  next
    case False
    with e53 have e: "e = 53" by simp
    have "(2::rat) ^ 53 \<le> of_int n" using b(1) by (simp add: e flip: e_def)
    with le have "(of_int n :: rat) = 2 ^ 53" by simp
    then have "(of_int n :: rat) / 2 powi (e - 52) = of_int (2 ^ 52)" by (simp add: e)
    then show ?thesis by blast
  qed
  then obtain z where z: "(of_int n :: rat) / 2 powi (ilog2 (of_int n) - 52) = of_int z"
    by (auto simp: e_def)
  have "(of_int n :: rat) < 2 ^ 1024" using le by (rule le_less_trans) simp
  then show ?thesis using round_double_exact[OF pos _ z] e0 by (simp add: e_def)
qed

lemma round_double_pos:
  assumes "1 \<le> r"
  shows "js_gt (round_double r) (Fin 0)"
proof -
  have pos: "0 < r" using assms by simp
  note b = ilog2_bounds[OF pos]
  define e where "e = ilog2 r"
  have "(2::rat) powi 0 < 2 powi (e + 1)" using b(2) assms by (simp add: e_def)
  then have e0: "0 \<le> e" using pow2_less_imp_less by fastforce
  define u :: rat where "u = 2 powi (e - 52)"
  have u: "0 < u" by (simp add: u_def)
  have "2 powi e / u = (2::rat) powi 52" by (simp add: u_def power_int_diff)
  then have "1 \<le> 2 powi e / u" by simp
  also have "\<dots> \<le> r / u" using b(1) u by (simp add: e_def divide_right_mono)
  finally have "1 \<le> r / u" .
  then have "1 \<le> \<lfloor>r / u\<rfloor>" by (simp add: le_floor_iff)
  then have n: "1 \<le> round_ties_even (r / u)"
    using round_ties_even_ge_floor[of "r / u"] by linarith
  then have v: "0 < of_int (round_ties_even (r / u)) * u" using u by simp
  have m: "max (ilog2 r) (- 1022) = e" using e0 by (simp add: e_def)
  have a: "\<bar>r\<bar> = r" using pos by simp
  show ?thesis
    unfolding round_double_def Let_def a m using pos v by (simp add: u_def)
qed




section \<open>Properties of lists, fields and strict equality\<close>

lemma findIndex_ge: "- 1 \<le> findIndex P xs"
  by (induction xs) (auto simp: Let_def)

lemma findIndex_none: "findIndex P xs = - 1 \<longleftrightarrow> \<not> list_ex P xs"
proof (induction xs)
  case Nil
  show ?case by simp
next
  case (Cons x xs)
  have "- 1 \<le> findIndex P xs" by (rule findIndex_ge)
  with Cons show ?case by (auto simp: Let_def)
qed

lemma findIndex_first:
  assumes "list_ex P xs"
  shows "0 \<le> findIndex P xs \<and> nat (findIndex P xs) < length xs
         \<and> P (xs ! nat (findIndex P xs)) \<and> (\<forall>j < nat (findIndex P xs). \<not> P (xs ! j))"
  using assms
proof (induction xs)
  case Nil
  then show ?case by simp
next
  case (Cons x xs)
  show ?case
  proof (cases "P x")
    case True
    then show ?thesis by simp
  next
    case False
    with Cons.prems have ex: "list_ex P xs" by simp
    then have ne: "findIndex P xs \<noteq> - 1" by (simp add: findIndex_none)
    note ih = Cons.IH[OF ex]
    have n: "nat (findIndex P xs + 1) = Suc (nat (findIndex P xs))"
      using ih by (simp add: nat_add_distrib)
    have "\<forall>j < Suc (nat (findIndex P xs)). \<not> P ((x # xs) ! j)"
      using ih False by (auto simp: less_Suc_eq_0_disj)
    then show ?thesis using False ne ih by (simp add: Let_def n)
  qed
qed

lemma field_spread_with: "field (spread_with i k v) k' = (if k' = k then v else field i k')"
  by (simp add: field_def spread_with_def update_conv')

lemma strict_eq_sym: "strict_eq a b = strict_eq b a"
  by (cases a; cases b) auto

lemma strict_eq_trans: "strict_eq a b \<Longrightarrow> strict_eq b c \<Longrightarrow> strict_eq a c"
  by (cases a; cases b; cases c) simp_all

section \<open>Removing from the cart\<close>

text \<open>
  Claim C4. For every cart state and id, \<^verbatim>\<open>removeFromCart(id)\<close> removes the entries whose
  id is strictly equal to the given id and keeps all others in order; when no entry has the
  id the array is unchanged; no error is raised. In both cases exactly one notification,
  the error toast \<^verbatim>\<open>Removed from cart\<close>, is fired.
\<close>

theorem removeFromCart_spec:
  "\<not> isInCart ident (fst (removeFromCart ident prev))
   \<and> fst (removeFromCart ident prev) = filter (\<lambda>i. \<not> strict_eq (field i ''id'') ident) prev
   \<and> (\<not> isInCart ident prev \<longrightarrow> fst (removeFromCart ident prev) = prev)
   \<and> snd (removeFromCart ident prev) = [ToastError [Lit ''Removed from cart'']]"
  by (auto simp: removeFromCart_def isInCart_def list_ex_iff filter_id_conv)

theorem removeFromCart_spec_witness:
  "\<not> isInCart (JNum (Fin 7)) [[(''id'', JNum (Fin 1)), (''quantity'', JNum (Fin 2))]]
   \<and> removeFromCart (JNum (Fin 7)) [[(''id'', JNum (Fin 1)), (''quantity'', JNum (Fin 2))]]
       = ([[(''id'', JNum (Fin 1)), (''quantity'', JNum (Fin 2))]], [ToastError [Lit ''Removed from cart'']])"
  using removeFromCart_spec[of "JNum (Fin 7)" "[[(''id'', JNum (Fin 1)), (''quantity'', JNum (Fin 2))]]"]
  by (simp add: isInCart_def field_def prod_eq_iff)

section \<open>Adding to the wishlist\<close>

text \<open>
  What \<^verbatim>\<open>addToWishlist\<close> stores does not depend on when React runs the updater: a product
  whose id is present leaves the array as it is, and two calls with ids that \<^verbatim>\<open>===\<close>
  identifies, from a state without the id, store exactly one entry, the product of the
  first call. No call fires a notification for a present id, and a call for an absent id
  fires one when the updater runs at the call.
\<close>

lemma addToWishlist_present:
  assumes "isInWishlist (field product ''id'') prev"
  shows "addToWishlist run product prev = (prev, [])"
  using assms by (simp add: addToWishlist_def isInWishlist_def)

lemma addToWishlist_absent:
  assumes "\<not> isInWishlist (field product ''id'') prev"
  shows "addToWishlist run product prev =
           (prev @ [product],
            if run = AtCall
            then [ToastSuccess [Interp (js_or (field product ''title'') (JStr ''Item'')),
                                Lit '' added to wishlist'']]
            else [])"
  using assms by (simp add: addToWishlist_def isInWishlist_def)

lemma addToWishlist_stores_once:
  assumes "\<not> isInWishlist (field product ''id'') prev"
    and "strict_eq (field product ''id'') (field product' ''id'')"
  shows "fst (addToWishlist run' product' (fst (addToWishlist run product prev))) = prev @ [product]"
    and "length (filter (\<lambda>i. strict_eq (field i ''id'') (field product ''id''))
                  (fst (addToWishlist run' product' (fst (addToWishlist run product prev))))) = 1"
    and "snd (addToWishlist run' product' (fst (addToWishlist run product prev))) = []"
proof -
  have "isInWishlist (field product' ''id'') (prev @ [product])"
    using assms(2) by (simp add: isInWishlist_def list_ex_iff)
  then have second: "addToWishlist run' product' (prev @ [product]) = (prev @ [product], [])"
    by (rule addToWishlist_present)
  have self: "strict_eq (field product ''id'') (field product ''id'')"
    using assms(2) strict_eq_trans strict_eq_sym by blast
  have none: "filter (\<lambda>i. strict_eq (field i ''id'') (field product ''id'')) prev = []"
    using assms(1) by (simp add: isInWishlist_def list_ex_iff filter_empty_conv)
  show "fst (addToWishlist run' product' (fst (addToWishlist run product prev))) = prev @ [product]"
    by (simp add: addToWishlist_absent[OF assms(1)] second)
  show "length (filter (\<lambda>i. strict_eq (field i ''id'') (field product ''id''))
                  (fst (addToWishlist run' product' (fst (addToWishlist run product prev))))) = 1"
    by (simp add: addToWishlist_absent[OF assms(1)] second none self)
  show "snd (addToWishlist run' product' (fst (addToWishlist run product prev))) = []"
    by (simp add: addToWishlist_absent[OF assms(1)] second)
qed

text \<open>
  Claim C5. \<^verbatim>\<open>addToWishlist\<close> is to be idempotent on the id, and two calls with the same
  id from a state without it are to leave exactly one stored entry and to fire exactly one
  \<^verbatim>\<open>added to wishlist\<close> notification. The code stores the one entry, but where React has
  queued the updaters, as it does once the provider has an update pending, neither call
  fires the notification: \<^verbatim>\<open>added\<close> is still \<^verbatim>\<open>false\<close> when it is tested. From the wishlist
  holding the course \<open>c0\<close>, two calls for the course \<open>c1\<close> store it once and fire nothing;
  with the first updater run at the call they fire the one notification.
\<close>

theorem addToWishlist_queued_fires_nothing:
  "\<not> isInWishlist (field [(''id'', JStr ''c1''), (''title'', JStr ''Algebra'')] ''id'')
        [[(''id'', JStr ''c0''), (''title'', JStr ''Logic'')]]
   \<and> fst (addToWishlist Queued [(''id'', JStr ''c1''), (''title'', JStr ''Algebra'')]
          (fst (addToWishlist Queued [(''id'', JStr ''c1''), (''title'', JStr ''Algebra'')]
                  [[(''id'', JStr ''c0''), (''title'', JStr ''Logic'')]])))
       = [[(''id'', JStr ''c0''), (''title'', JStr ''Logic'')],
          [(''id'', JStr ''c1''), (''title'', JStr ''Algebra'')]]
   \<and> snd (addToWishlist Queued [(''id'', JStr ''c1''), (''title'', JStr ''Algebra'')]
            [[(''id'', JStr ''c0''), (''title'', JStr ''Logic'')]])
       @ snd (addToWishlist Queued [(''id'', JStr ''c1''), (''title'', JStr ''Algebra'')]
          (fst (addToWishlist Queued [(''id'', JStr ''c1''), (''title'', JStr ''Algebra'')]
                  [[(''id'', JStr ''c0''), (''title'', JStr ''Logic'')]])))
       = []
   \<and> snd (addToWishlist AtCall [(''id'', JStr ''c1''), (''title'', JStr ''Algebra'')]
            [[(''id'', JStr ''c0''), (''title'', JStr ''Logic'')]])
       @ snd (addToWishlist Queued [(''id'', JStr ''c1''), (''title'', JStr ''Algebra'')]
          (fst (addToWishlist AtCall [(''id'', JStr ''c1''), (''title'', JStr ''Algebra'')]
                  [[(''id'', JStr ''c0''), (''title'', JStr ''Logic'')]])))
       = [ToastSuccess [Interp (JStr ''Algebra''), Lit '' added to wishlist'']]"
  by (simp add: addToWishlist_def isInWishlist_def field_def js_or_def)

section \<open>The consumer hooks\<close>

lemma useContext_CartContext_none:
  "(\<forall>items. CartProvider items \<notin> set scope) \<Longrightarrow> useContext_CartContext scope = None"
  by (induction scope rule: useContext_CartContext.induct) auto

lemma useContext_WishlistContext_none:
  "(\<forall>items. WishlistProvider items \<notin> set scope) \<Longrightarrow> useContext_WishlistContext scope = None"
  by (induction scope rule: useContext_WishlistContext.induct) auto

lemma useContext_CartContext_nearest:
  "(\<forall>items. CartProvider items \<notin> set inner) \<Longrightarrow>
   useContext_CartContext (inner @ CartProvider cart # outer) = Some (cart_value cart)"
  by (induction inner rule: useContext_CartContext.induct) auto

lemma useContext_WishlistContext_nearest:
  "(\<forall>items. WishlistProvider items \<notin> set inner) \<Longrightarrow>
   useContext_WishlistContext (inner @ WishlistProvider wishlist # outer) = Some (wishlist_value wishlist)"
  by (induction inner rule: useContext_WishlistContext.induct) auto

text \<open>
  Claim C8. \<^verbatim>\<open>useCart\<close>, called where no cart provider encloses the caller (whether or not
  a wishlist provider does), raises an error whose message names the hook and the missing
  provider, and returns no value; so does \<^verbatim>\<open>useWishlist\<close> where no wishlist provider
  encloses the caller. Inside a provider each hook returns the value of the nearest
  provider of its context: its items and its operations.
\<close>

theorem hooks_fail_fast:
  "((\<forall>items. CartProvider items \<notin> set scope) \<longrightarrow>
      useCart scope = Inl (Error ''useCart must be used within a CartProvider''))
   \<and> ((\<forall>items. WishlistProvider items \<notin> set scope) \<longrightarrow>
      useWishlist scope = Inl (Error ''useWishlist must be used within a WishlistProvider''))
   \<and> ((\<forall>items. CartProvider items \<notin> set inner) \<longrightarrow>
      useCart (inner @ CartProvider cart # outer) = Inr (cart_value cart))
   \<and> ((\<forall>items. WishlistProvider items \<notin> set inner) \<longrightarrow>
      useWishlist (inner @ WishlistProvider wishlist # outer) = Inr (wishlist_value wishlist))"
  by (simp add: useCart_def useWishlist_def useContext_CartContext_none
        useContext_WishlistContext_none useContext_CartContext_nearest
        useContext_WishlistContext_nearest)

theorem hooks_fail_fast_witness:
  "(\<forall>items. CartProvider items \<notin> set [WishlistProvider []])
   \<and> useCart [WishlistProvider []] = Inl (Error ''useCart must be used within a CartProvider'')
   \<and> (\<forall>items. WishlistProvider items \<notin> set [])
   \<and> useWishlist [] = Inl (Error ''useWishlist must be used within a WishlistProvider'')
   \<and> (\<forall>items. CartProvider items \<notin> set [WishlistProvider []])
   \<and> useCart (CombinedProvider [[(''id'', JNum (Fin 1)), (''quantity'', JNum (Fin 1))]] [] [])
       = Inr (cart_value [[(''id'', JNum (Fin 1)), (''quantity'', JNum (Fin 1))]])
   \<and> useWishlist (CombinedProvider [[(''id'', JNum (Fin 1)), (''quantity'', JNum (Fin 1))]] [] [])
       = Inr (wishlist_value [])"
  using hooks_fail_fast[where scope = "[WishlistProvider []]" and inner = "[WishlistProvider []]"
          and cart = "[[(''id'', JNum (Fin 1)), (''quantity'', JNum (Fin 1))]]" and outer = "[]"
          and wishlist = "[]"]
        hooks_fail_fast[where scope = "[]" and inner = "[]" and cart = "[]"
          and outer = "[CartProvider [[(''id'', JNum (Fin 1)), (''quantity'', JNum (Fin 1))]]]"
          and wishlist = "[]"]
  by (simp add: CombinedProvider_def)

section \<open>Loading the stored state\<close>

text \<open>
  Claim C6. For every platform and key the loader returns and raises nothing. It yields the
  empty sequence when \<^verbatim>\<open>window\<close> is undefined or storage is unavailable; otherwise it
  yields the \<^verbatim>\<open>items\<close> sequence of a stored object that has one, the elements of a stored
  bare sequence, and the empty sequence for every other stored value, for an absent key,
  for the empty text and for text that does not parse.
\<close>

theorem loadItems_spec:
  "(\<exists>xs. loadItems pf key = Inr xs)
   \<and> (\<not> window_defined pf \<or> localStorage pf = None \<longrightarrow> loadItems pf key = Inr [])
   \<and> (window_defined pf \<and> localStorage pf = Some store \<longrightarrow>
        loadItems pf key = Inr
          (case map_of store key of
             Some (Encodes (JObj r kvs)) \<Rightarrow>
               (case field kvs ''items'' of JArr r' xs \<Rightarrow> xs | _ \<Rightarrow> [])
           | Some (Encodes (JArr r xs)) \<Rightarrow> xs
           | _ \<Rightarrow> []))"
proof (intro conjI impI)
  have saved: "\<And>v. truthy v \<Longrightarrow>
      (case get_items v of Inl err \<Rightarrow> Inl err
       | Inr its \<Rightarrow> if isArray its then Inr (elems its)
                     else if isArray v then Inr (elems v) else Inr [])
      = (Inr (case v of
               JObj r kvs \<Rightarrow> (case field kvs ''items'' of JArr r' xs \<Rightarrow> xs | _ \<Rightarrow> [])
             | JArr r xs \<Rightarrow> xs
             | _ \<Rightarrow> []) :: error + jsval list)"
  proof -
    fix v
    assume "truthy v"
    then show "?thesis v"
      by (cases v) (auto split: jsval.splits)
  qed
  have gen: "loadItems pf key = Inr
      (case safeGet pf key of
         JObj r kvs \<Rightarrow> (case field kvs ''items'' of JArr r' xs \<Rightarrow> xs | _ \<Rightarrow> [])
       | JArr r xs \<Rightarrow> xs
       | _ \<Rightarrow> [])"
  proof (cases "truthy (safeGet pf key)")
    case True
    then show ?thesis by (simp add: loadItems_def Let_def saved)
  next
    case False
    then show ?thesis by (cases "safeGet pf key") (simp_all add: loadItems_def Let_def)
  qed
  then show "\<exists>xs. loadItems pf key = Inr xs" by blast
  show "loadItems pf key = Inr []" if "\<not> window_defined pf \<or> localStorage pf = None"
  proof -
    from that have "safeGet pf key = JNull" by (auto simp: safeGet_def getItem_def)
    then show ?thesis by (simp add: gen)
  qed
  show "loadItems pf key = Inr
          (case map_of store key of
             Some (Encodes (JObj r kvs)) \<Rightarrow>
               (case field kvs ''items'' of JArr r' xs \<Rightarrow> xs | _ \<Rightarrow> [])
           | Some (Encodes (JArr r xs)) \<Rightarrow> xs
           | _ \<Rightarrow> [])" if "window_defined pf \<and> localStorage pf = Some store"
  proof -
    from that have "safeGet pf key =
        (case map_of store key of Some (Encodes v) \<Rightarrow> v | _ \<Rightarrow> JNull)"
      by (auto simp: safeGet_def getItem_def split: option.splits stored_text.splits)
    then show ?thesis
      by (simp add: gen split: option.splits stored_text.splits jsval.splits)
  qed
qed

theorem loadItems_spec_witness:
  "window_defined \<lparr>window_defined = True, localStorage = Some
       [(''cart'', Encodes (JObj 0 [(''items'', JArr 1 [JObj 2 [(''id'', JNum (Fin 3)), (''quantity'', JNum (Fin 1))]]),
                                   (''updatedAt'', JNum (Fin 1700000000000))])),
        (''wishlist'', Encodes (JArr 4 [JObj 5 [(''id'', JNum (Fin 8))]])),
        (''theme'', Malformed)]\<rparr>
   \<and> loadItems \<lparr>window_defined = True, localStorage = Some
       [(''cart'', Encodes (JObj 0 [(''items'', JArr 1 [JObj 2 [(''id'', JNum (Fin 3)), (''quantity'', JNum (Fin 1))]]),
                                   (''updatedAt'', JNum (Fin 1700000000000))])),
        (''wishlist'', Encodes (JArr 4 [JObj 5 [(''id'', JNum (Fin 8))]])),
        (''theme'', Malformed)]\<rparr> ''cart''
      = Inr [JObj 2 [(''id'', JNum (Fin 3)), (''quantity'', JNum (Fin 1))]]
   \<and> localStorage \<lparr>window_defined = True, localStorage = None\<rparr> = None
   \<and> loadItems \<lparr>window_defined = True, localStorage = None\<rparr> ''cart'' = Inr []"
  using loadItems_spec[of "\<lparr>window_defined = True, localStorage = Some
       [(''cart'', Encodes (JObj 0 [(''items'', JArr 1 [JObj 2 [(''id'', JNum (Fin 3)), (''quantity'', JNum (Fin 1))]]),
                                   (''updatedAt'', JNum (Fin 1700000000000))])),
        (''wishlist'', Encodes (JArr 4 [JObj 5 [(''id'', JNum (Fin 8))]])),
        (''theme'', Malformed)]\<rparr>" "''cart''"
        "[(''cart'', Encodes (JObj 0 [(''items'', JArr 1 [JObj 2 [(''id'', JNum (Fin 3)), (''quantity'', JNum (Fin 1))]]),
                                   (''updatedAt'', JNum (Fin 1700000000000))])),
        (''wishlist'', Encodes (JArr 4 [JObj 5 [(''id'', JNum (Fin 8))]])),
        (''theme'', Malformed)]"]
      loadItems_spec[of "\<lparr>window_defined = True, localStorage = None\<rparr>" "''cart''" "[]"]
  by (simp add: field_def)

text \<open>
  Claim C10. The loader neither validates nor normalises the entries it loads. A stored
  bare sequence, and likewise a stored object with an \<^verbatim>\<open>items\<close> sequence, whose two
  entries share the id 1 and have the quantities 0 and \<^verbatim>\<open>"two"\<close> (respectively -3 and no
  quantity at all) is loaded as it is. The loaded entries are objects; the cart state made
  of their properties violates both parts of the cart invariant, which the operations
  preserve but the load does not establish.
\<close>

theorem load_breaks_invariant:
  "loadItems \<lparr>window_defined = True, localStorage = Some
       [(''cart'', Encodes (JArr 0
           [JObj 1 [(''id'', JNum (Fin 1)), (''title'', JStr ''A''), (''quantity'', JNum (Fin 0))],
            JObj 2 [(''id'', JNum (Fin 1)), (''title'', JStr ''A''), (''quantity'', JStr ''two'')]]))]\<rparr> ''cart''
     = Inr [JObj 1 [(''id'', JNum (Fin 1)), (''title'', JStr ''A''), (''quantity'', JNum (Fin 0))],
            JObj 2 [(''id'', JNum (Fin 1)), (''title'', JStr ''A''), (''quantity'', JStr ''two'')]]
   \<and> loadItems \<lparr>window_defined = True, localStorage = Some
       [(''cart'', Encodes (JObj 0 [(''items'', JArr 1
           [JObj 2 [(''id'', JNum (Fin 1)), (''title'', JStr ''A''), (''quantity'', JNum (Fin (- 3)))],
            JObj 3 [(''id'', JNum (Fin 1)), (''title'', JStr ''A'')]]),
            (''updatedAt'', JNum (Fin 1700000000000))]))]\<rparr> ''cart''
     = Inr [JObj 2 [(''id'', JNum (Fin 1)), (''title'', JStr ''A''), (''quantity'', JNum (Fin (- 3)))],
            JObj 3 [(''id'', JNum (Fin 1)), (''title'', JStr ''A'')]]
   \<and> \<not> unique_ids [[(''id'', JNum (Fin 1)), (''title'', JStr ''A''), (''quantity'', JNum (Fin 0))],
                     [(''id'', JNum (Fin 1)), (''title'', JStr ''A''), (''quantity'', JStr ''two'')]]
   \<and> \<not> positive_quantity [(''id'', JNum (Fin 1)), (''title'', JStr ''A''), (''quantity'', JNum (Fin 0))]
   \<and> \<not> positive_quantity [(''id'', JNum (Fin 1)), (''title'', JStr ''A''), (''quantity'', JStr ''two'')]
   \<and> \<not> cart_inv [[(''id'', JNum (Fin 1)), (''title'', JStr ''A''), (''quantity'', JNum (Fin 0))],
                   [(''id'', JNum (Fin 1)), (''title'', JStr ''A''), (''quantity'', JStr ''two'')]]
   \<and> \<not> unique_ids [[(''id'', JNum (Fin 1)), (''title'', JStr ''A''), (''quantity'', JNum (Fin (- 3)))],
                     [(''id'', JNum (Fin 1)), (''title'', JStr ''A'')]]
   \<and> \<not> positive_quantity [(''id'', JNum (Fin 1)), (''title'', JStr ''A''), (''quantity'', JNum (Fin (- 3)))]
   \<and> \<not> positive_quantity [(''id'', JNum (Fin 1)), (''title'', JStr ''A'')]
   \<and> \<not> cart_inv [[(''id'', JNum (Fin 1)), (''title'', JStr ''A''), (''quantity'', JNum (Fin (- 3)))],
                   [(''id'', JNum (Fin 1)), (''title'', JStr ''A'')]]"
  by (simp add: loadItems_def safeGet_def getItem_def field_def cart_inv_def unique_ids_def
        positive_quantity_def)

section \<open>Adding to the cart\<close>





text \<open>
  Where React has queued the updater, \<^verbatim>\<open>addToCart\<close> fires no notification, whether or not
  the updater will append a new entry.
\<close>

lemma addToCart_queued_fires_nothing: "snd (addToCart Queued product prev) = []"
  by (simp add: addToCart_def Let_def)

section \<open>Setting a quantity\<close>



lemma updateQuantity_removes:
  assumes "\<not> js_gt (ToNumber q) (Fin 0)"
  shows "\<not> isInCart ident (fst (updateQuantity ident q prev))"
  using assms by (auto simp: updateQuantity_def isInCart_def list_ex_iff field_spread_with)




lemma updateQuantity_keeps_all:
  assumes "list_all (\<lambda>i. strict_eq (field i ''id'') ident
                     \<or> js_gt (ToNumber (field i ''quantity'')) (Fin 0)) prev"
    and "js_gt (ToNumber q) (Fin 0)"
  shows "fst (updateQuantity ident q prev)
         = map (\<lambda>i. if strict_eq (field i ''id'') ident
                    then spread_with i ''quantity'' (JNum (ToNumber q)) else i) prev"
  using assms by (induction prev) (auto simp: updateQuantity_def field_spread_with)

lemma updateQuantity_as_remove:
  assumes "list_all (\<lambda>i. strict_eq (field i ''id'') ident
                     \<or> js_gt (ToNumber (field i ''quantity'')) (Fin 0)) prev"
    and "\<not> js_gt (ToNumber q) (Fin 0)"
  shows "fst (updateQuantity ident q prev) = fst (removeFromCart ident prev)"
  using assms by (induction prev) (auto simp: updateQuantity_def removeFromCart_def field_spread_with)

lemma updateQuantity_absent:
  assumes "list_all (\<lambda>i. strict_eq (field i ''id'') ident
                     \<or> js_gt (ToNumber (field i ''quantity'')) (Fin 0)) prev"
    and "\<not> isInCart ident prev"
  shows "fst (updateQuantity ident q prev) = prev"
  using assms by (induction prev) (auto simp: updateQuantity_def isInCart_def)

text \<open>
  Claim C3, for cart states in which every entry with another id has a stored quantity
  whose numeric value is greater than 0. \<^verbatim>\<open>updateQuantity(id, q)\<close> with \<^verbatim>\<open>Number(q)\<close> not
  greater than 0 (as for \<^verbatim>\<open>q <= 0\<close>) yields the state that \<^verbatim>\<open>removeFromCart(id)\<close> yields,
  with no entry of that id. With \<^verbatim>\<open>Number(q)\<close> greater than 0 it sets the quantity of the
  entries with that id to \<^verbatim>\<open>Number(q)\<close>, which is \<open>q\<close> itself when \<open>q\<close> is a number, and
  leaves their other fields and all other entries untouched. When no entry has the id the
  state is unchanged. No notification is fired.
\<close>

theorem updateQuantity_on_positive_carts:
  assumes "list_all (\<lambda>i. strict_eq (field i ''id'') ident
                     \<or> js_gt (ToNumber (field i ''quantity'')) (Fin 0)) prev"
  shows "(\<not> js_gt (ToNumber q) (Fin 0) \<longrightarrow>
            fst (updateQuantity ident q prev) = fst (removeFromCart ident prev)
          \<and> \<not> isInCart ident (fst (updateQuantity ident q prev)))
       \<and> (js_gt (ToNumber q) (Fin 0) \<longrightarrow>
            length (fst (updateQuantity ident q prev)) = length prev
          \<and> (\<forall>n<length prev.
                (strict_eq (field (prev ! n) ''id'') ident \<longrightarrow>
                   field (fst (updateQuantity ident q prev) ! n) ''quantity'' = JNum (ToNumber q)
                 \<and> (\<forall>x. q = JNum x \<longrightarrow> field (fst (updateQuantity ident q prev) ! n) ''quantity'' = q)
                 \<and> (\<forall>k. k \<noteq> ''quantity'' \<longrightarrow>
                        field (fst (updateQuantity ident q prev) ! n) k = field (prev ! n) k))
              \<and> (\<not> strict_eq (field (prev ! n) ''id'') ident \<longrightarrow>
                   fst (updateQuantity ident q prev) ! n = prev ! n)))
       \<and> (\<not> isInCart ident prev \<longrightarrow> fst (updateQuantity ident q prev) = prev)
       \<and> snd (updateQuantity ident q prev) = []"
proof (intro conjI impI allI)
  show "fst (updateQuantity ident q prev) = fst (removeFromCart ident prev)"
    if "\<not> js_gt (ToNumber q) (Fin 0)"
    using assms that by (rule updateQuantity_as_remove)
  show "\<not> isInCart ident (fst (updateQuantity ident q prev))" if "\<not> js_gt (ToNumber q) (Fin 0)"
    using that by (rule updateQuantity_removes)
  show "fst (updateQuantity ident q prev) = prev" if "\<not> isInCart ident prev"
    using assms that by (rule updateQuantity_absent)
  show "snd (updateQuantity ident q prev) = []" by (simp add: updateQuantity_def)
next
  assume pos: "js_gt (ToNumber q) (Fin 0)"
  note m = updateQuantity_keeps_all[OF assms pos]
  show "length (fst (updateQuantity ident q prev)) = length prev" by (simp add: m)
  fix n
  assume n: "n < length prev"
  show "field (fst (updateQuantity ident q prev) ! n) ''quantity'' = JNum (ToNumber q)"
    if "strict_eq (field (prev ! n) ''id'') ident"
    using that n by (simp add: m field_spread_with)
  show "field (fst (updateQuantity ident q prev) ! n) ''quantity'' = q"
    if h: "strict_eq (field (prev ! n) ''id'') ident" "q = JNum x" for x
  proof -
    have "field (fst (updateQuantity ident q prev) ! n) ''quantity'' = JNum (ToNumber q)"
      using h(1) n by (simp add: m field_spread_with)
    also have "JNum (ToNumber q) = q" by (simp add: h(2))
    finally show ?thesis .
  qed
  show "field (fst (updateQuantity ident q prev) ! n) k = field (prev ! n) k"
    if "strict_eq (field (prev ! n) ''id'') ident" "k \<noteq> ''quantity''" for k
    using that n by (simp add: m field_spread_with)
  show "fst (updateQuantity ident q prev) ! n = prev ! n"
    if "\<not> strict_eq (field (prev ! n) ''id'') ident"
    using that n by (simp add: m)
qed

theorem updateQuantity_on_positive_carts_witness:
  "list_all (\<lambda>i. strict_eq (field i ''id'') (JNum (Fin 1))
                \<or> js_gt (ToNumber (field i ''quantity'')) (Fin 0))
      [[(''id'', JNum (Fin 1)), (''title'', JStr ''A''), (''quantity'', JNum (Fin 0))],
       [(''id'', JNum (Fin 2)), (''title'', JStr ''B''), (''quantity'', JNum (Fin 1))]]
   \<and> js_gt (ToNumber (JNum (Fin 5))) (Fin 0)
   \<and> updateQuantity (JNum (Fin 1)) (JNum (Fin 5))
      [[(''id'', JNum (Fin 1)), (''title'', JStr ''A''), (''quantity'', JNum (Fin 0))],
       [(''id'', JNum (Fin 2)), (''title'', JStr ''B''), (''quantity'', JNum (Fin 1))]]
     = ([[(''id'', JNum (Fin 1)), (''title'', JStr ''A''), (''quantity'', JNum (Fin 5))],
       [(''id'', JNum (Fin 2)), (''title'', JStr ''B''), (''quantity'', JNum (Fin 1))]], [])
   \<and> \<not> js_gt (ToNumber (JNum (Fin 0))) (Fin 0)
   \<and> updateQuantity (JNum (Fin 1)) (JNum (Fin 0))
      [[(''id'', JNum (Fin 1)), (''title'', JStr ''A''), (''quantity'', JNum (Fin 0))],
       [(''id'', JNum (Fin 2)), (''title'', JStr ''B''), (''quantity'', JNum (Fin 1))]]
     = ([[(''id'', JNum (Fin 2)), (''title'', JStr ''B''), (''quantity'', JNum (Fin 1))]], [])
   \<and> list_all (\<lambda>i. strict_eq (field i ''id'') (JNum (Fin 9))
                \<or> js_gt (ToNumber (field i ''quantity'')) (Fin 0))
      [[(''id'', JNum (Fin 1)), (''title'', JStr ''A''), (''quantity'', JNum (Fin 2))],
       [(''id'', JNum (Fin 2)), (''title'', JStr ''B''), (''quantity'', JNum (Fin 1))]]
   \<and> \<not> isInCart (JNum (Fin 9))
      [[(''id'', JNum (Fin 1)), (''title'', JStr ''A''), (''quantity'', JNum (Fin 2))],
       [(''id'', JNum (Fin 2)), (''title'', JStr ''B''), (''quantity'', JNum (Fin 1))]]
   \<and> updateQuantity (JNum (Fin 9)) (JNum (Fin 5))
      [[(''id'', JNum (Fin 1)), (''title'', JStr ''A''), (''quantity'', JNum (Fin 2))],
       [(''id'', JNum (Fin 2)), (''title'', JStr ''B''), (''quantity'', JNum (Fin 1))]]
     = ([[(''id'', JNum (Fin 1)), (''title'', JStr ''A''), (''quantity'', JNum (Fin 2))],
       [(''id'', JNum (Fin 2)), (''title'', JStr ''B''), (''quantity'', JNum (Fin 1))]], [])"
  using updateQuantity_on_positive_carts[of "JNum (Fin 1)"
      "[[(''id'', JNum (Fin 1)), (''title'', JStr ''A''), (''quantity'', JNum (Fin 0))],
       [(''id'', JNum (Fin 2)), (''title'', JStr ''B''), (''quantity'', JNum (Fin 1))]]"
      "JNum (Fin 5)"]
    updateQuantity_on_positive_carts[of "JNum (Fin 1)"
      "[[(''id'', JNum (Fin 1)), (''title'', JStr ''A''), (''quantity'', JNum (Fin 0))],
       [(''id'', JNum (Fin 2)), (''title'', JStr ''B''), (''quantity'', JNum (Fin 1))]]"
      "JNum (Fin 0)"]
    updateQuantity_on_positive_carts[of "JNum (Fin 9)"
      "[[(''id'', JNum (Fin 1)), (''title'', JStr ''A''), (''quantity'', JNum (Fin 2))],
       [(''id'', JNum (Fin 2)), (''title'', JStr ''B''), (''quantity'', JNum (Fin 1))]]"
      "JNum (Fin 5)"]
  by (simp add: updateQuantity_def isInCart_def field_def spread_with_def)

text \<open>
  Without the hypothesis on the stored quantities the statement fails: a call for an id
  that no entry has removes an entry whose stored quantity is 0.
\<close>

theorem updateQuantity_absent_id_counterexample:
  "\<not> isInCart (JNum (Fin 2)) [[(''id'', JNum (Fin 1)), (''title'', JStr ''A''), (''quantity'', JNum (Fin 0))]]
   \<and> fst (updateQuantity (JNum (Fin 2)) (JNum (Fin 5))
            [[(''id'', JNum (Fin 1)), (''title'', JStr ''A''), (''quantity'', JNum (Fin 0))]])
       \<noteq> [[(''id'', JNum (Fin 1)), (''title'', JStr ''A''), (''quantity'', JNum (Fin 0))]]"
  by (simp add: isInCart_def updateQuantity_def field_def)

section \<open>The cart invariant\<close>

lemma unique_vals_snoc:
  "unique_vals (vs @ [v]) = (unique_vals vs \<and> \<not> list_ex (\<lambda>w. strict_eq w v) vs)"
  by (induction vs) (auto simp: list_ex_iff strict_eq_sym)

lemma unique_vals_filter:
  "unique_vals (map f xs) \<Longrightarrow> unique_vals (map f (filter P xs))"
  by (induction xs) (auto simp: list_ex_iff)

lemma ids_list_update:
  assumes "n < length xs" "f e = f (xs ! n)"
  shows "map f (xs[n := e]) = map f xs"
  using assms by (simp add: list_eq_iff_nth_eq nth_list_update)

lemma increment_positive:
  assumes "js_gt n (Fin 0)"
  shows "js_gt (js_add (number_or n (Fin 0)) (Fin 1)) (Fin 0)"
proof (cases n)
  case (Fin a)
  with assms have a: "0 < a" by simp
  then have "number_or n (Fin 0) = Fin a" by (simp add: Fin number_or_def)
  moreover have "js_gt (round_double (a + 1)) (Fin 0)" using a by (intro round_double_pos) simp
  ultimately show ?thesis by simp
qed (use assms in \<open>simp_all add: number_or_def\<close>)

lemma positive_quantity_incremented:
  assumes "positive_quantity cur"
  shows "positive_quantity (spread_with cur ''quantity''
           (JNum (js_add (number_or (ToNumber (field cur ''quantity'')) (Fin 0)) (Fin 1))))"
proof -
  from assms obtain n where n: "field cur ''quantity'' = JNum n" "js_gt n (Fin 0)"
    by (auto simp: positive_quantity_def split: jsval.splits)
  show ?thesis
    using increment_positive[OF n(2)] by (simp add: positive_quantity_def field_spread_with n(1))
qed

lemma cart_inv_addToCart:
  assumes "cart_inv prev"
  shows "cart_inv (fst (addToCart run product prev))"
proof (cases "isInCart (field product ''id'') prev")
  case True
  define P where "P = (\<lambda>i. strict_eq (field i ''id'') (field product ''id''))"
  define n where "n = nat (findIndex P prev)"
  define e where "e = spread_with (prev ! n) ''quantity''
      (JNum (js_add (number_or (ToNumber (field (prev ! n) ''quantity'')) (Fin 0)) (Fin 1)))"
  from True have ex: "list_ex P prev" by (simp add: isInCart_def P_def)
  note f = findIndex_first[OF ex]
  have len: "n < length prev" using f by (simp add: n_def)
  have res: "fst (addToCart run product prev) = prev[n := e]"
    using f by (simp add: addToCart_def Let_def e_def n_def flip: P_def)
  have "map (\<lambda>i. field i ''id'') (prev[n := e]) = map (\<lambda>i. field i ''id'') prev"
    using len by (intro ids_list_update) (simp_all add: e_def field_spread_with)
  then have u: "unique_ids (prev[n := e])" using assms by (simp add: cart_inv_def unique_ids_def)
  have "positive_quantity (prev ! n)" using assms len by (simp add: cart_inv_def list_all_length)
  then have "positive_quantity e" unfolding e_def by (rule positive_quantity_incremented)
  then have "list_all positive_quantity (prev[n := e])"
    using assms by (auto simp: cart_inv_def list_all_iff dest!: set_update_subset_insert[THEN subsetD])
  with u show ?thesis by (simp add: res cart_inv_def)
next
  case False
  then have none: "\<not> list_ex (\<lambda>i. strict_eq (field i ''id'') (field product ''id'')) prev"
    by (simp add: isInCart_def)
  then have res: "fst (addToCart run product prev) = prev @ [spread_with product ''quantity'' (JNum (Fin 1))]"
    by (simp add: addToCart_def findIndex_none[THEN iffD2])
  have "\<not> list_ex (\<lambda>w. strict_eq w (field product ''id'')) (map (\<lambda>i. field i ''id'') prev)"
    using none by (simp add: list_ex_iff)
  then have "unique_ids (prev @ [spread_with product ''quantity'' (JNum (Fin 1))])"
    using assms by (simp add: cart_inv_def unique_ids_def unique_vals_snoc field_spread_with)
  moreover have "positive_quantity (spread_with product ''quantity'' (JNum (Fin 1)))"
    by (simp add: positive_quantity_def field_spread_with)
  ultimately show ?thesis using assms by (simp add: res cart_inv_def)
qed

lemma cart_inv_removeFromCart:
  assumes "cart_inv prev"
  shows "cart_inv (fst (removeFromCart ident prev))"
  using assms by (simp add: cart_inv_def unique_ids_def removeFromCart_def unique_vals_filter list_all_iff)

lemma cart_inv_updateQuantity:
  assumes "cart_inv prev"
  shows "cart_inv (fst (updateQuantity ident q prev))"
proof -
  define upd where "upd = (\<lambda>i. if strict_eq (field i ''id'') ident
                  then spread_with i ''quantity'' (JNum (ToNumber q)) else i)"
  define pos where "pos = (\<lambda>i. js_gt (ToNumber (field i ''quantity'')) (Fin 0))"
  have res: "fst (updateQuantity ident q prev) = filter pos (map upd prev)"
    by (simp add: updateQuantity_def upd_def pos_def)
  have ids: "map (\<lambda>i. field i ''id'') (map upd prev) = map (\<lambda>i. field i ''id'') prev"
    by (simp add: upd_def field_spread_with)
  have "unique_vals (map (\<lambda>i. field i ''id'') (map upd prev))"
    unfolding ids using assms by (simp add: cart_inv_def unique_ids_def)
  then have u: "unique_ids (filter pos (map upd prev))"
    unfolding unique_ids_def by (rule unique_vals_filter)
  have "positive_quantity (upd i)" if "i \<in> set prev" "pos (upd i)" for i
  proof (cases "strict_eq (field i ''id'') ident")
    case True
    with that(2) show ?thesis by (simp add: upd_def pos_def positive_quantity_def field_spread_with)
  next
    case False
    with that(1) assms show ?thesis by (simp add: upd_def cart_inv_def list_all_iff)
  qed
  then have "list_all positive_quantity (filter pos (map upd prev))"
    by (auto simp: list_all_iff)
  with u show ?thesis by (simp add: res cart_inv_def)
qed

text \<open>
  Claim C2. Every cart operation, applied to a state in which no two entries have ids
  that \<^verbatim>\<open>===\<close> identifies and every quantity is a number greater than 0, yields a state
  with the same two properties: \<^verbatim>\<open>addToCart\<close>, \<^verbatim>\<open>removeFromCart\<close>, \<^verbatim>\<open>clearCart\<close>, and
  \<^verbatim>\<open>updateQuantity\<close> with any argument, a positive integer or not. A quantity update whose
  numeric value is not greater than 0 removes the entry instead of storing that quantity.
\<close>

theorem cart_operations_preserve_invariant:
  assumes "cart_inv prev"
  shows "cart_inv (fst (addToCart run product prev))
       \<and> cart_inv (fst (removeFromCart ident prev))
       \<and> cart_inv (fst (updateQuantity ident q prev))
       \<and> cart_inv (fst (clearCart prev))
       \<and> (\<not> js_gt (ToNumber q) (Fin 0) \<longrightarrow> \<not> isInCart ident (fst (updateQuantity ident q prev)))"
proof (intro conjI impI)
  show "cart_inv (fst (addToCart run product prev))" using assms by (rule cart_inv_addToCart)
  show "cart_inv (fst (removeFromCart ident prev))" using assms by (rule cart_inv_removeFromCart)
  show "cart_inv (fst (updateQuantity ident q prev))" using assms by (rule cart_inv_updateQuantity)
  show "cart_inv (fst (clearCart prev))" by (simp add: clearCart_def cart_inv_def unique_ids_def)
  show "\<not> isInCart ident (fst (updateQuantity ident q prev))" if "\<not> js_gt (ToNumber q) (Fin 0)"
    using that by (rule updateQuantity_removes)
qed

theorem cart_operations_preserve_invariant_witness:
  "cart_inv [[(''id'', JNum (Fin 1)), (''title'', JStr ''A''), (''quantity'', JNum (Fin 2))],
             [(''id'', JNum (Fin 2)), (''title'', JStr ''B''), (''quantity'', JNum (Fin 1))]]
   \<and> cart_inv [[(''id'', JNum (Fin 1)), (''title'', JStr ''A''), (''quantity'', JNum (Fin 2))],
               [(''id'', JNum (Fin 2)), (''title'', JStr ''B''), (''quantity'', JNum (Fin 2))]]
   \<and> fst (addToCart Queued [(''id'', JNum (Fin 2)), (''title'', JStr ''B'')]
        [[(''id'', JNum (Fin 1)), (''title'', JStr ''A''), (''quantity'', JNum (Fin 2))],
         [(''id'', JNum (Fin 2)), (''title'', JStr ''B''), (''quantity'', JNum (Fin 1))]])
      = [[(''id'', JNum (Fin 1)), (''title'', JStr ''A''), (''quantity'', JNum (Fin 2))],
         [(''id'', JNum (Fin 2)), (''title'', JStr ''B''), (''quantity'', JNum (Fin 2))]]
   \<and> \<not> js_gt (ToNumber (JNum (Fin (- 1)))) (Fin 0)
   \<and> fst (updateQuantity (JNum (Fin 1)) (JNum (Fin (- 1)))
        [[(''id'', JNum (Fin 1)), (''title'', JStr ''A''), (''quantity'', JNum (Fin 2))],
         [(''id'', JNum (Fin 2)), (''title'', JStr ''B''), (''quantity'', JNum (Fin 1))]])
      = [[(''id'', JNum (Fin 2)), (''title'', JStr ''B''), (''quantity'', JNum (Fin 1))]]
   \<and> \<not> isInCart (JNum (Fin 1)) (fst (updateQuantity (JNum (Fin 1)) (JNum (Fin (- 1)))
        [[(''id'', JNum (Fin 1)), (''title'', JStr ''A''), (''quantity'', JNum (Fin 2))],
         [(''id'', JNum (Fin 2)), (''title'', JStr ''B''), (''quantity'', JNum (Fin 1))]]))"
proof -
  have inv: "cart_inv [[(''id'', JNum (Fin 1)), (''title'', JStr ''A''), (''quantity'', JNum (Fin 2))],
             [(''id'', JNum (Fin 2)), (''title'', JStr ''B''), (''quantity'', JNum (Fin 1))]]"
    by (simp add: cart_inv_def unique_ids_def positive_quantity_def field_def)
  have add: "fst (addToCart Queued [(''id'', JNum (Fin 2)), (''title'', JStr ''B'')]
        [[(''id'', JNum (Fin 1)), (''title'', JStr ''A''), (''quantity'', JNum (Fin 2))],
         [(''id'', JNum (Fin 2)), (''title'', JStr ''B''), (''quantity'', JNum (Fin 1))]])
      = [[(''id'', JNum (Fin 1)), (''title'', JStr ''A''), (''quantity'', JNum (Fin 2))],
         [(''id'', JNum (Fin 2)), (''title'', JStr ''B''), (''quantity'', JNum (Fin 2))]]"
    using round_double_of_int[of 2]
    by (simp add: addToCart_def field_def spread_with_def number_or_def)
  have upd: "fst (updateQuantity (JNum (Fin 1)) (JNum (Fin (- 1)))
        [[(''id'', JNum (Fin 1)), (''title'', JStr ''A''), (''quantity'', JNum (Fin 2))],
         [(''id'', JNum (Fin 2)), (''title'', JStr ''B''), (''quantity'', JNum (Fin 1))]])
      = [[(''id'', JNum (Fin 2)), (''title'', JStr ''B''), (''quantity'', JNum (Fin 1))]]"
    by (simp add: updateQuantity_def field_def spread_with_def)
  show ?thesis
    using cart_operations_preserve_invariant[OF inv,
        of Queued "[(''id'', JNum (Fin 2)), (''title'', JStr ''B'')]" "JNum (Fin 1)" "JNum (Fin (- 1))"]
    by (simp add: inv add upd)
qed

section \<open>The total price\<close>
























end
